theory Spec2Isabelle
  imports Main "HOL-Library.Word" "HOL-Library.Sublist"
begin

section \<open>Stream plumbing of a container: container/stream/streams.go\<close>

text \<open>
  Go strings and byte slices are sequences of bytes: \<open>string\<close> (a list of 8-bit
  characters). Go's \<open>int\<close> is a machine integer, 64 bits wide on 64-bit platforms:
  \<open>64 word\<close>, read as two's complement by \<open>sint\<close>; subtraction wraps. Lengths of byte
  slices are natural numbers, far below \<open>2 ^ 63\<close>.
\<close>

type_synonym go_int = "64 word"

text \<open>
  An \<open>error\<close> value, by the text its \<open>Error()\<close> method gives; \<open>nil\<close> is \<open>None\<close>. An error
  that \<open>fmt.Errorf\<close> builds from a format outside the modelled part of \<open>fmt\<close> is
  \<open>Errorf_of\<close> that format.
\<close>

datatype error = errorString (Error: string) | Errorf_of string

subsection \<open>Transformation rules\<close>

text \<open>
  \<open>*regexp.Regexp\<close> belongs to the Go standard library. The code calls one method of a
  compiled pattern, \<open>ReplaceAllString(src, repl)\<close>; a compiled pattern is modelled by
  that method, so every statement about an arbitrary rule list holds whatever the
  pattern language does.
\<close>

datatype Regexp = Regexp (ReplaceAllString: "string \<Rightarrow> string \<Rightarrow> string")

record Transformation =
  Pattern :: Regexp
  Replacement :: string

text \<open>
  \<open>func applyTransformations(s string, transformations []Transformation) string\<close>:
  the loop over the rules, each assignment to \<open>s\<close> feeding the next iteration.
\<close>

fun applyTransformations :: "string \<Rightarrow> Transformation list \<Rightarrow> string" where
  "applyTransformations s [] = s"
| "applyTransformations s (t # transformations) =
     applyTransformations (ReplaceAllString (Pattern t) s (Replacement t)) transformations"

text \<open>
  The fragment of the library's pattern language that the model covers. A literal pattern
  is a non-empty ASCII text without any of the bytes that \<open>regexp.QuoteMeta\<close> escapes,
  except braces: a \<open>{\<close> that is not followed by a digit opens no repetition count and
  stands for itself, and so does every \<open>}\<close>. A plain template holds no \<open>$\<close>, so nothing
  in it is expanded. The patterns and templates of this repository (\<open>white\<close>, \<open>black\<close>,
  \<open>red\<close>, \<open>{black}\<close>, \<open>{red}\<close>, \<open>{white}\<close>, \<open>{grn}\<close>) are of this kind.
\<close>

definition metacharacters :: "char list" where
  "metacharacters =
     [CHR 0x5C, CHR ''.'', CHR ''+'', CHR ''*'', CHR ''?'', CHR ''('', CHR '')'',
      CHR ''|'', CHR ''['', CHR '']'', CHR ''^'', CHR ''$'']"

definition digit :: "char \<Rightarrow> bool" where
  "digit c = (c \<in> set ''0123456789'')"

fun literal_bytes :: "string \<Rightarrow> bool" where
  "literal_bytes [] = True"
| "literal_bytes (c # cs) =
     ((of_char c :: nat) < 128 \<and> c \<notin> set metacharacters
      \<and> (if c = CHR ''{'' then (case cs of [] \<Rightarrow> True | d # ds \<Rightarrow> \<not> digit d) else True)
      \<and> literal_bytes cs)"

definition literal_pattern :: "string \<Rightarrow> bool" where
  "literal_pattern pat = (pat \<noteq> [] \<and> literal_bytes pat)"

definition plain_template :: "string \<Rightarrow> bool" where
  "plain_template repl = (CHR ''$'' \<notin> set repl)"

text \<open>
  For a literal pattern and a plain template the library's \<open>ReplaceAllString\<close> scans the
  bytes from the left: where the pattern stands, the replacement is written and the scan
  goes on behind the match; any other byte is copied. \<open>MustCompile\<close> stands for the
  library's compiler on literal patterns only, and the method it gives for its use with
  plain templates only: statements about it carry \<open>literal_pattern\<close> and
  \<open>plain_template\<close> as hypotheses, or are instances where both hold. Outside the
  fragment (other patterns, the empty pattern, templates with \<open>$\<close>) the library differs
  and the definition is not used.
\<close>

function replaceAllLiteral :: "string \<Rightarrow> string \<Rightarrow> string \<Rightarrow> string" where
  "replaceAllLiteral pat src repl =
     (if pat = [] then concat (map (\<lambda>c. repl @ [c]) src) @ repl
      else if src = [] then []
      else if take (length pat) src = pat
           then repl @ replaceAllLiteral pat (drop (length pat) src) repl
      else hd src # replaceAllLiteral pat (tl src) repl)"
  by pat_completeness auto
termination
  by (relation "measure (\<lambda>(pat, src, repl). length src)") auto

declare replaceAllLiteral.simps [simp del]

definition MustCompile :: "string \<Rightarrow> Regexp" where
  "MustCompile pat = Regexp (replaceAllLiteral pat)"

text \<open>The pattern \<open>pat\<close> stands in \<open>src\<close> at byte offset \<open>i\<close>.\<close>

definition occurs_at :: "string \<Rightarrow> string \<Rightarrow> nat \<Rightarrow> bool" where
  "occurs_at pat src i = (i + length pat \<le> length src \<and> take (length pat) (drop i src) = pat)"

subsection \<open>TransformWriter\<close>

text \<open>
  An \<open>io.Writer\<close> is an object with hidden state and one method
  \<open>Write(p []byte) (n int, err error)\<close>. The state has type \<open>'w\<close>; the method takes the
  state and the bytes and gives the pair \<open>(n, err)\<close> with the state afterwards.
\<close>

type_synonym 'w Writer = "'w \<Rightarrow> string \<Rightarrow> (go_int \<times> error option) \<times> 'w"

record 'w TransformWriter =
  w :: 'w
  transformations :: "Transformation list"
  buffer :: string

definition maxTransformLength :: int where
  "maxTransformLength = 100"

text \<open>\<open>func max(a, b int) int\<close> of the source.\<close>

definition max_int :: "int \<Rightarrow> int \<Rightarrow> int" where
  "max_int a b = (if a > b then a else b)"

text \<open>
  \<open>func (tw *TransformWriter) Write(p []byte) (n int, err error)\<close>. The slice
  expression \<open>payload[k:]\<close> is \<open>drop k payload\<close>; here \<open>0 \<le> k \<le> len(payload)\<close>, so it
  cannot panic. \<open>append\<close> may reuse the backing array of \<open>tw.buffer\<close>, but only beyond its
  length, and \<open>string(payload)\<close> copies: the values are those of list append.
  The first argument is the \<open>Write\<close> method of the wrapped writer \<open>tw.w\<close>.
\<close>

definition Write ::
  "'w Writer \<Rightarrow> 'w TransformWriter \<Rightarrow> string \<Rightarrow> (go_int \<times> error option) \<times> 'w TransformWriter"
where
  "Write w_Write tw p =
     (let payload = buffer tw @ p;
          transformed = applyTransformations payload (transformations tw);
          buffer' = drop (nat (max_int 0 (int (length payload) - maxTransformLength))) payload;
          ((n, err), w') = w_Write (w tw) transformed
      in ((n - word_of_nat (length buffer'), err), tw\<lparr>w := w', buffer := buffer'\<rparr>))"

text \<open>
  A downstream writer that records every call it receives, in order, in front of the
  state of the writer it wraps: the log is how many downstream writes happened and with
  which bytes.
\<close>

definition logged :: "'w Writer \<Rightarrow> (string list \<times> 'w) Writer" where
  "logged w_Write = (\<lambda>(calls, s) p. case w_Write s p of (r, s') \<Rightarrow> (r, (calls @ [p], s')))"

text \<open>
  \<open>bytes.Buffer\<close> of the standard library, as the test uses it: \<open>Write\<close> appends and
  reports the whole length with no error, \<open>String\<close> is the content, \<open>Reset\<close> empties it.
\<close>

definition Buffer_Write :: "string Writer" where
  "Buffer_Write buf p = ((word_of_nat (length p), None), buf @ p)"

text \<open>
  Successive \<open>Write\<close> calls on one writer, one per chunk, whatever count each call
  reports: the loop of the test without its comparisons.
\<close>

fun Writes :: "'w Writer \<Rightarrow> 'w TransformWriter \<Rightarrow> string list \<Rightarrow> 'w TransformWriter" where
  "Writes w_Write tw [] = tw"
| "Writes w_Write tw (chunk # chunks) = Writes w_Write (snd (Write w_Write tw chunk)) chunks"

text \<open>
  The working sequences of successive writes, from the retained buffer \<open>b\<close>: each is the
  retained buffer followed by the chunk, and leaves its last 100 bytes as the next
  retained buffer.
\<close>

fun payloads :: "string \<Rightarrow> string list \<Rightarrow> string list" where
  "payloads b [] = []"
| "payloads b (chunk # chunks) =
     (b @ chunk) # payloads (drop (length (b @ chunk) - 100) (b @ chunk)) chunks"

subsection \<open>The test of \<open>TransformWriter\<close>\<close>

text \<open>
  \<open>TestTransformWriter_Write\<close> runs, for each case, the loop
  \<open>for i, chunk := range tt.input\<close> over one writer on a \<open>bytes.Buffer\<close>: it writes
  the chunk, fails on an error, fails when \<open>buf.String()\<close> is not
  \<open>tt.expectedOutput[i]\<close>, and resets the buffer. An index beyond \<open>expectedOutput\<close>
  panics.
\<close>

datatype outcome =
    PASS
  | unexpected_error error
  | expected_but_got string string
  | index_out_of_range

fun test_loop :: "string TransformWriter \<Rightarrow> string list \<Rightarrow> string list \<Rightarrow> outcome" where
  "test_loop tw [] expectedOutput = PASS"
| "test_loop tw (chunk # input) expectedOutput =
     (case Write Buffer_Write tw chunk of
        ((n, Some err), tw') \<Rightarrow> unexpected_error err
      | ((n, None), tw') \<Rightarrow>
          (case expectedOutput of
             [] \<Rightarrow> index_out_of_range
           | e # es \<Rightarrow>
               if w tw' \<noteq> e then expected_but_got e (w tw')
               else test_loop (tw'\<lparr>w := []\<rparr>) input es))"

text \<open>
  The rules of both test cases. The test file builds them as \<open>Search\<close> and
  \<open>Replacement\<close> byte texts; in \<open>streams.go\<close> a rule holds a compiled pattern, here the
  literal one.
\<close>

definition test_transformations :: "Transformation list" where
  "test_transformations =
     [\<lparr>Pattern = MustCompile ''black'', Replacement = ''white''\<rparr>,
      \<lparr>Pattern = MustCompile ''red'', Replacement = ''green''\<rparr>]"

definition TestTransformWriter_Write :: "string list \<Rightarrow> string list \<Rightarrow> outcome" where
  "TestTransformWriter_Write input expectedOutput =
     test_loop \<lparr>w = [], transformations = test_transformations, buffer = []\<rparr> input expectedOutput"

subsection \<open>Config\<close>

text \<open>
  The broadcasters, pipes and the containerd I/O object are external: each is an opaque
  handle of type \<open>'h\<close>; a \<open>nil\<close> interface or pointer is \<open>None\<close>. \<open>wg\<close> is the counter of
  the \<open>sync.WaitGroup\<close>. The methods \<open>Stdout()\<close>, \<open>Stderr()\<close> and \<open>Stdin()\<close> of the
  configuration return the fields \<open>stdout\<close>, \<open>stderr\<close> and \<open>stdin\<close>; the capitalised
  names are the streams of the I/O source.
\<close>

record 'h DirectIO =
  Stdin :: "'h option"
  Stdout :: "'h option"
  Stderr :: "'h option"

record 'h Config =
  wg :: int
  stdout :: 'h
  stderr :: 'h
  stdin :: "'h option"
  stdinPipe :: "'h option"
  dio :: "'h DirectIO option"

text \<open>\<open>strings.Join(elems, sep)\<close> of the standard library.\<close>

fun Join :: "string list \<Rightarrow> string \<Rightarrow> string" where
  "Join [] sep = []"
| "Join [e] sep = e"
| "Join (e # e' # elems) sep = e @ sep @ Join (e' # elems) sep"

text \<open>
  \<open>fmt.Errorf(format)\<close> with no operand gives the error whose text is the format with
  its verbs processed. After a \<open>%\<close> the flags \<open>#0+-\<close> and space are skipped; then the end
  of the format writes \<open>%!(NOVERB)\<close>, a second \<open>%\<close> writes \<open>%\<close>, and any other ASCII
  byte that starts no width, precision or argument index is the verb, for which
  \<open>%!verb(MISSING)\<close> is written since there is no operand. Widths, precisions, argument
  indexes and verbs beyond ASCII are outside the model: there the text is \<open>None\<close>, and
  the error is kept as \<open>Errorf_of\<close> its format, with no text given.
\<close>

definition flag :: "char \<Rightarrow> bool" where
  "flag c = (c \<in> set ''#0+- '')"

definition plain_verb :: "char \<Rightarrow> bool" where
  "plain_verb c = ((of_char c :: nat) < 128 \<and> c \<notin> set ''123456789.[*'')"

function doPrintf :: "string \<Rightarrow> string option" where
  "doPrintf [] = Some []"
| "doPrintf (c # format) =
     (if c \<noteq> CHR ''%'' then map_option (\<lambda>text. c # text) (doPrintf format)
      else (case dropWhile flag format of
              [] \<Rightarrow> Some ''%!(NOVERB)''
            | verb # format' \<Rightarrow>
                if verb = CHR ''%'' then map_option (\<lambda>text. CHR ''%'' # text) (doPrintf format')
                else if plain_verb verb
                then map_option (\<lambda>text. ''%!'' @ [verb] @ ''(MISSING)'' @ text) (doPrintf format')
                else None))"
  by pat_completeness auto
termination
proof -
  have less: "length ys < Suc (length xs)" if "dropWhile flag xs = y # ys" for xs ys :: string and y
    using length_dropWhile_le [of flag xs] that by simp
  show ?thesis
    by (relation "measure length") (auto dest: less)
qed

definition fmt_Errorf :: "string \<Rightarrow> error" where
  "fmt_Errorf format = (case doPrintf format of Some text \<Rightarrow> errorString text | None \<Rightarrow> Errorf_of format)"

text \<open>
  \<open>func (c *Config) CloseStreams() error\<close>. Closing a reader or cleaning a broadcaster
  acts on the world outside, of state \<open>'s\<close>, and answers an error or \<open>nil\<close>: the two
  operations are parameters. \<open>fmt.Sprintf\<close> with \<open>%s\<close> writes the text of the error. The
  joined text is the format argument of \<open>fmt.Errorf\<close>, as in the source.
\<close>

type_synonym ('h, 's) closing = "'h \<Rightarrow> 's \<Rightarrow> error option \<times> 's"

definition CloseStreams ::
  "('h, 's) closing \<Rightarrow> ('h, 's) closing \<Rightarrow> 'h Config \<Rightarrow> 's \<Rightarrow> error option \<times> 's"
where
  "CloseStreams stdin_Close Clean c s0 =
     (let errors = [];
          (errors, s1) =
            (case stdin c of
               None \<Rightarrow> (errors, s0)
             | Some r \<Rightarrow>
                 (case stdin_Close r s0 of
                    (Some err, s') \<Rightarrow> (errors @ [''error close stdin: '' @ Error err], s')
                  | (None, s') \<Rightarrow> (errors, s')));
          (errors, s2) =
            (case Clean (stdout c) s1 of
               (Some err, s') \<Rightarrow> (errors @ [''error close stdout: '' @ Error err], s')
             | (None, s') \<Rightarrow> (errors, s'));
          (errors, s3) =
            (case Clean (stderr c) s2 of
               (Some err, s') \<Rightarrow> (errors @ [''error close stderr: '' @ Error err], s')
             | (None, s') \<Rightarrow> (errors, s'))
      in if length errors > 0 then (Some (fmt_Errorf (Join errors [CHR 0x0A])), s3) else (None, s3))"

subsection \<open>CopyToPipe\<close>

text \<open>
  \<open>CopyToPipe\<close> starts goroutines. What it does itself is sequential: it sets \<open>c.dio\<close>,
  calls \<open>c.wg.Add(1)\<close> and executes \<open>go\<close> statements. The model gives the configuration
  afterwards and these events in program order; a goroutine is recorded with what it
  captured. How the goroutines interleave afterwards is not modelled.
\<close>

datatype 'h goroutine =
    copy_go "'h TransformWriter" 'h
  | stdin_go 'h 'h

datatype 'h event =
    wg_Add int
  | go "'h goroutine"

text \<open>
  The closure \<open>copyFunc(w, r, transformations)\<close>: it builds the writer, adds one to the
  counter and starts the goroutine.
\<close>

definition copyFunc ::
  "'h \<Rightarrow> 'h \<Rightarrow> Transformation list \<Rightarrow> 'h Config \<times> 'h event list \<Rightarrow> 'h Config \<times> 'h event list"
where
  "copyFunc w0 r ts = (\<lambda>(c, evs).
     (let tw = \<lparr>w = w0, transformations = ts, buffer = []\<rparr>
      in (c\<lparr>wg := wg c + 1\<rparr>, evs @ [wg_Add 1, go (copy_go tw r)])))"

definition stdoutTransforms :: "Transformation list" where
  "stdoutTransforms = [\<lparr>Pattern = MustCompile ''{black}'', Replacement = ''{white}''\<rparr>]"

definition stderrTransforms :: "Transformation list" where
  "stderrTransforms = [\<lparr>Pattern = MustCompile ''{red}'', Replacement = ''{grn}''\<rparr>]"

definition CopyToPipe :: "'h Config \<Rightarrow> 'h DirectIO \<Rightarrow> 'h Config \<times> 'h event list" where
  "CopyToPipe c iop =
     (let st = (c\<lparr>dio := Some iop\<rparr>, []);
          st = (case Stdout iop of Some r \<Rightarrow> copyFunc (stdout (fst st)) r stdoutTransforms st | None \<Rightarrow> st);
          st = (case Stderr iop of Some r \<Rightarrow> copyFunc (stderr (fst st)) r stderrTransforms st | None \<Rightarrow> st)
      in (case stdin (fst st) of
            Some stdin' \<Rightarrow>
              (case Stdin iop of
                 Some iop_Stdin \<Rightarrow> (fst st, snd st @ [go (stdin_go iop_Stdin stdin')])
               | None \<Rightarrow> st)
          | None \<Rightarrow> st))"

text \<open>
  What a goroutine does once it runs, as the calls it makes in order. The second argument
  is the error, or \<open>nil\<close>, of the one call whose failure it looks at: \<open>pools.Copy\<close> in
  the goroutine of \<open>copyFunc\<close>, \<open>iop.Stdin.Close()\<close> in the stdin goroutine.
\<close>

datatype 'h action =
    pools_Copy_tw "'h TransformWriter" 'h
  | pools_Copy 'h 'h
  | log_Errorf error
  | log_Warnf error
  | Close 'h
  | wg_Done

fun body :: "'h goroutine \<Rightarrow> error option \<Rightarrow> 'h action list" where
  "body (copy_go tw r) err =
     [pools_Copy_tw tw r] @ (case err of Some e \<Rightarrow> [log_Errorf e] | None \<Rightarrow> []) @ [Close r, wg_Done]"
| "body (stdin_go iop_Stdin stdin') err =
     [pools_Copy iop_Stdin stdin', Close iop_Stdin] @ (case err of Some e \<Rightarrow> [log_Warnf e] | None \<Rightarrow> [])"

text \<open>The writers of the copy goroutines among the events, each with its source.\<close>

fun writers :: "'h event list \<Rightarrow> ('h TransformWriter \<times> 'h) list" where
  "writers [] = []"
| "writers (go (copy_go tw r) # evs) = (tw, r) # writers evs"
| "writers (ev # evs) = writers evs"

text \<open>
  The messages \<open>CloseStreams\<close> formats for the operations that failed, given each
  operation's name and what it answered.
\<close>

definition failure_messages :: "(string \<times> error option) list \<Rightarrow> string list" where
  "failure_messages results =
     concat (map (\<lambda>(name, r). case r of
                     Some err \<Rightarrow> [''error close '' @ name @ '': '' @ Error err]
                   | None \<Rightarrow> []) results)"

section \<open>Properties of \<open>applyTransformations\<close>\<close>

lemma applyTransformations_append:
  "applyTransformations s (ts @ [t])
     = ReplaceAllString (Pattern t) (applyTransformations s ts) (Replacement t)"
  by (induction ts arbitrary: s) simp_all

lemma replaceAllLiteral_match:
  assumes "pat \<noteq> []"
  shows "replaceAllLiteral pat (pat @ rest) repl = repl @ replaceAllLiteral pat rest repl"
  using assms by (subst replaceAllLiteral.simps) simp

lemma replaceAllLiteral_no_match:
  assumes "pat \<noteq> []" and "\<not> occurs_at pat (c # cs) 0"
  shows "replaceAllLiteral pat (c # cs) repl = c # replaceAllLiteral pat cs repl"
proof -
  have "take (length pat) (c # cs) \<noteq> pat"
  proof
    assume eq: "take (length pat) (c # cs) = pat"
    have "length (take (length pat) (c # cs)) = length pat"
      by (simp only: eq)
    then have "length pat \<le> length (c # cs)"
      by simp
    with eq assms(2) show False
      by (simp add: occurs_at_def)
  qed
  with assms(1) show ?thesis
    by (subst replaceAllLiteral.simps) simp
qed

lemma occurs_at_Cons: "occurs_at pat (c # cs) (Suc i) = occurs_at pat cs i"
  by (simp add: occurs_at_def)

lemma replaceAllLiteral_leftmost:
  assumes "pat \<noteq> []" and "\<forall>i < length pre. \<not> occurs_at pat (pre @ pat @ rest) i"
  shows "replaceAllLiteral pat (pre @ pat @ rest) repl = pre @ repl @ replaceAllLiteral pat rest repl"
  using assms(2)
proof (induction pre)
  case Nil
  show ?case using assms(1) by (simp add: replaceAllLiteral_match)
next
  case (Cons c pre)
  have no0: "\<not> occurs_at pat (c # (pre @ pat @ rest)) 0"
    using Cons.prems by auto
  have "\<forall>i < length pre. \<not> occurs_at pat (pre @ pat @ rest) i"
  proof (intro allI impI)
    fix i assume "i < length pre"
    then have "\<not> occurs_at pat ((c # pre) @ pat @ rest) (Suc i)"
      using Cons.prems by auto
    then show "\<not> occurs_at pat (pre @ pat @ rest) i"
      by (simp add: occurs_at_Cons)
  qed
  then have "replaceAllLiteral pat (pre @ pat @ rest) repl = pre @ repl @ replaceAllLiteral pat rest repl"
    by (rule Cons.IH)
  then show ?case
    using replaceAllLiteral_no_match [OF assms(1) no0] by simp
qed

lemma replaceAllLiteral_none:
  assumes "pat \<noteq> []" and "\<forall>i. \<not> occurs_at pat src i"
  shows "replaceAllLiteral pat src repl = src"
  using assms(2)
proof (induction src)
  case Nil
  show ?case using assms(1) by (subst replaceAllLiteral.simps) simp
next
  case (Cons c cs)
  have "\<forall>i. \<not> occurs_at pat cs i"
    using Cons.prems occurs_at_Cons [of pat c cs] by blast
  then have "replaceAllLiteral pat cs repl = cs"
    by (rule Cons.IH)
  moreover have "\<not> occurs_at pat (c # cs) 0"
    using Cons.prems by blast
  ultimately show ?case
    using replaceAllLiteral_no_match [OF assms(1)] by simp
qed

lemma literal_pattern_not_Nil: "literal_pattern pat \<Longrightarrow> pat \<noteq> []"
  by (simp add: literal_pattern_def)

text \<open>
  C6. \<open>applyTransformations\<close> leaves the text alone when there is no rule, applies the
  first rule to the text and the remaining rules to the result, so that the last rule sees
  what all earlier rules produced; it is a function of its two arguments. A rule with a
  literal pattern and a plain template replaces the leftmost occurrence of the pattern,
  copies what stands before it, and goes on behind the match with the rest; a text with no
  occurrence is unchanged. The rule \<open>white\<close> to \<open>black\<close> maps the test's input to the
  test's expected output.
\<close>

theorem applyTransformations_in_order:
  "applyTransformations s [] = s
   \<and> applyTransformations s (t # ts)
       = applyTransformations (ReplaceAllString (Pattern t) s (Replacement t)) ts
   \<and> applyTransformations s (ts @ [t])
       = ReplaceAllString (Pattern t) (applyTransformations s ts) (Replacement t)
   \<and> (literal_pattern pat \<and> plain_template repl
        \<and> (\<forall>i < length pre. \<not> occurs_at pat (pre @ pat @ rest) i) \<longrightarrow>
        ReplaceAllString (MustCompile pat) (pre @ pat @ rest) repl
          = pre @ repl @ ReplaceAllString (MustCompile pat) rest repl)
   \<and> (literal_pattern pat \<and> plain_template repl \<and> (\<forall>i. \<not> occurs_at pat src i) \<longrightarrow>
        ReplaceAllString (MustCompile pat) src repl = src)
   \<and> literal_pattern ''white'' \<and> plain_template ''black''
   \<and> applyTransformations ''This is a white test string.''
         [\<lparr>Pattern = MustCompile ''white'', Replacement = ''black''\<rparr>]
       = ''This is a black test string.''"
proof (intro conjI impI)
  show "applyTransformations ''This is a white test string.''
         [\<lparr>Pattern = MustCompile ''white'', Replacement = ''black''\<rparr>]
       = ''This is a black test string.''"
    by code_simp
  show "literal_pattern ''white''"
    by (simp add: literal_pattern_def metacharacters_def)
  show "plain_template ''black''"
    by (simp add: plain_template_def)
qed (simp_all add: applyTransformations_append MustCompile_def replaceAllLiteral_leftmost
      replaceAllLiteral_none literal_pattern_not_Nil)

theorem applyTransformations_in_order_witness:
  "literal_pattern ''red'' \<and> plain_template ''green''
   \<and> \<not> occurs_at ''red'' ''a red, red b'' 0 \<and> \<not> occurs_at ''red'' ''a red, red b'' 1
   \<and> (\<forall>i. \<not> occurs_at ''red'' '' b'' i)
   \<and> ReplaceAllString (MustCompile ''red'') '', red b'' ''green'' = '', green b''
   \<and> ReplaceAllString (MustCompile ''red'') ''a red, red b'' ''green'' = ''a green, green b''"
proof -
  have lit: "literal_pattern ''red''"
    by (simp add: literal_pattern_def metacharacters_def)
  have pl: "plain_template ''green''"
    by (simp add: plain_template_def)
  have h0: "\<not> occurs_at ''red'' ''a red, red b'' 0" and h1: "\<not> occurs_at ''red'' ''a red, red b'' 1"
    by (simp_all add: occurs_at_def)
  have h: "\<forall>i < length ''a ''. \<not> occurs_at ''red'' (''a '' @ ''red'' @ '', red b'') i"
    using h0 h1 by (simp add: less_Suc_eq numeral_2_eq_2)
  have g0: "\<not> occurs_at ''red'' '', red b'' 0" and g1: "\<not> occurs_at ''red'' '', red b'' 1"
    by (simp_all add: occurs_at_def)
  have g: "\<forall>i < length '', ''. \<not> occurs_at ''red'' ('', '' @ ''red'' @ '' b'') i"
    using g0 g1 by (simp add: less_Suc_eq numeral_2_eq_2)
  have n: "\<forall>i. \<not> occurs_at ''red'' '' b'' i"
    by (simp add: occurs_at_def)
  note T = applyTransformations_in_order
  have r3: "ReplaceAllString (MustCompile ''red'') '' b'' ''green'' = '' b''"
    using T [of _ _ _ "''red''" "''green''" _ _ "'' b''"] lit pl n by blast
  have r2: "ReplaceAllString (MustCompile ''red'') '', red b'' ''green'' = '', green b''"
    using T [of _ _ _ "''red''" "''green''" "'', ''" "'' b''"] lit pl g r3 by simp
  have r1: "ReplaceAllString (MustCompile ''red'') ''a red, red b'' ''green'' = ''a green, green b''"
    using T [of _ _ _ "''red''" "''green''" "''a ''" "'', red b''"] lit pl h r2 by simp
  show ?thesis using lit pl h0 h1 n r2 r1 by simp
qed

section \<open>Properties of \<open>TransformWriter.Write\<close>\<close>

lemma max_int_drop: "nat (max_int 0 (int n - maxTransformLength)) = n - 100"
  unfolding max_int_def maxTransformLength_def by (cases "n < 100") auto

lemma drop_last_min: "drop (length xs - k) xs = drop (length xs - min (length xs) k) xs"
  by (cases "length xs \<le> k") (simp_all add: min_def)

lemma sint_sub_small:
  fixes n :: go_int
  assumes "k \<le> 100" and "- (2 ^ 63) + 100 \<le> sint n"
  shows "sint (n - word_of_nat k) = sint n - int k"
proof -
  have "signed_take_bit 63 (int k) = int k"
    using assms(1) by (intro signed_take_bit_int_eq_self) auto
  then have k: "sint (word_of_nat k :: go_int) = int k"
    by (simp add: signed_of_nat)
  have "sint n < 2 ^ 63"
    using sint_lt [of n] by simp
  then have "signed_take_bit 63 (sint n - int k) = sint n - int k"
    using assms by (intro signed_take_bit_int_eq_self) auto
  then show ?thesis
    by (simp add: sint_word_diff k)
qed

lemma Write_unfold:
  "Write w_Write tw p =
     (case w_Write (w tw) (applyTransformations (buffer tw @ p) (transformations tw)) of
        ((n, err), w') \<Rightarrow>
          ((n - word_of_nat (length (drop (length (buffer tw @ p) - 100) (buffer tw @ p))), err),
           tw\<lparr>w := w', buffer := drop (length (buffer tw @ p) - 100) (buffer tw @ p)\<rparr>))"
  unfolding Write_def Let_def max_int_drop by (simp split: prod.splits)

lemma Write_buffer: "buffer (snd (Write w_Write tw p)) = drop (length (buffer tw @ p) - 100) (buffer tw @ p)"
  unfolding Write_unfold by (simp split: prod.splits)

lemma Write_transformations: "transformations (snd (Write w_Write tw p)) = transformations tw"
  unfolding Write_unfold by (simp split: prod.splits)

lemma Write_logged_calls:
  "fst (w (snd (Write (logged w_Write) tw p)))
     = fst (w tw) @ [applyTransformations (buffer tw @ p) (transformations tw)]"
  unfolding Write_unfold logged_def by (simp split: prod.splits)

lemma Write_Buffer:
  "Write Buffer_Write tw p =
     ((word_of_nat (length (applyTransformations (buffer tw @ p) (transformations tw)))
         - word_of_nat (length (drop (length (buffer tw @ p) - 100) (buffer tw @ p))), None),
      tw\<lparr>w := w tw @ applyTransformations (buffer tw @ p) (transformations tw),
         buffer := drop (length (buffer tw @ p) - 100) (buffer tw @ p)\<rparr>)"
  unfolding Write_unfold Buffer_Write_def by simp

lemma Writes_logged_calls:
  "fst (w (Writes (logged w_Write) tw chunks))
     = fst (w tw) @ map (\<lambda>payload. applyTransformations payload (transformations tw))
                        (payloads (buffer tw) chunks)"
proof (induction chunks arbitrary: tw)
  case Nil
  show ?case by simp
next
  case (Cons chunk chunks)
  let ?tw = "snd (Write (logged w_Write) tw chunk)"
  have "fst (w (Writes (logged w_Write) tw (chunk # chunks)))
          = fst (w (Writes (logged w_Write) ?tw chunks))"
    by simp
  also have "\<dots> = fst (w ?tw) @ map (\<lambda>payload. applyTransformations payload (transformations ?tw))
                        (payloads (buffer ?tw) chunks)"
    by (rule Cons.IH)
  also have "\<dots> = fst (w tw) @ map (\<lambda>payload. applyTransformations payload (transformations tw))
                        (payloads (buffer tw) (chunk # chunks))"
    by (simp only: Write_logged_calls Write_buffer Write_transformations payloads.simps
        list.map append_assoc append_Cons append_Nil)
  finally show ?case .
qed

text \<open>
  C5. One call \<open>Write(chunk)\<close>, over any downstream writer that answers \<open>(n, err)\<close> to
  the transformed bytes: the new retained buffer is the last \<open>min (len(buffer ++ chunk)) 100\<close>
  bytes of \<open>buffer ++ chunk\<close> before transformation; the downstream writer receives one
  call more than before, with the transformed sequence; the error comes back as it is;
  and the count that comes back is \<open>n\<close> minus the length of the new buffer, in machine
  arithmetic, which is the integer difference unless \<open>n\<close> is within 100 of the least
  \<open>int\<close>.
\<close>

theorem Write_contract:
  fixes w_Write :: "'w Writer"
  assumes down: "w_Write s (applyTransformations (buffer tw @ p) (transformations tw)) = ((n, err), s')"
      and st: "w tw = (calls, s)"
  shows "\<exists>tw'. Write (logged w_Write) tw p = ((n - word_of_nat (length (buffer tw')), err), tw')
           \<and> buffer tw' = drop (length (buffer tw @ p) - min (length (buffer tw @ p)) 100) (buffer tw @ p)
           \<and> length (buffer tw') = min (length (buffer tw @ p)) 100
           \<and> w tw' = (calls @ [applyTransformations (buffer tw @ p) (transformations tw)], s')
           \<and> transformations tw' = transformations tw
           \<and> (- (2 ^ 63) + 100 \<le> sint n \<longrightarrow>
                sint (n - word_of_nat (length (buffer tw'))) = sint n - int (length (buffer tw')))"
proof -
  define payload where "payload = buffer tw @ p"
  define b where "b = drop (length payload - 100) payload"
  define t where "t = applyTransformations payload (transformations tw)"
  define tw' where "tw' = tw\<lparr>w := (calls @ [t], s'), buffer := b\<rparr>"
  have lg: "logged w_Write (w tw) t = ((n, err), (calls @ [t], s'))"
    using down st by (simp add: logged_def t_def payload_def)
  have sel: "buffer tw' = b" "w tw' = (calls @ [t], s')" "transformations tw' = transformations tw"
    by (simp_all add: tw'_def)
  have W: "Write (logged w_Write) tw p = ((n - word_of_nat (length (buffer tw')), err), tw')"
    unfolding Write_unfold payload_def [symmetric] t_def [symmetric] lg b_def [symmetric] sel
    by (simp add: tw'_def)
  have len: "length b \<le> 100"
    by (simp add: b_def)
  have c2: "buffer tw' = drop (length payload - min (length payload) 100) payload"
    unfolding sel b_def by (rule drop_last_min)
  have c3: "length (buffer tw') = min (length payload) 100"
    unfolding sel b_def by auto
  have c6: "- (2 ^ 63) + 100 \<le> sint n \<longrightarrow>
      sint (n - word_of_nat (length (buffer tw'))) = sint n - int (length (buffer tw'))"
    unfolding sel using sint_sub_small [OF len] by blast
  show ?thesis
    using W c2 c3 sel(2,3) c6 unfolding payload_def t_def by (intro exI [of _ tw']) blast
qed

theorem Write_contract_witness:
  "Buffer_Write ''x'' (applyTransformations (''ab'' @ ''cd'') []) = ((4, None), ''xabcd'')
   \<and> Write (logged Buffer_Write) \<lparr>w = ([''ab''], ''x''), transformations = [], buffer = ''ab''\<rparr> ''cd''
       = ((0, None), \<lparr>w = ([''ab'', ''abcd''], ''xabcd''), transformations = [], buffer = ''abcd''\<rparr>)
   \<and> - (2 ^ 63) + 100 \<le> sint (4 :: go_int)
   \<and> sint ((4 :: go_int) - word_of_nat (length ''abcd'')) = sint (4 :: go_int) - int (length ''abcd'')"
proof -
  let ?tw = "\<lparr>w = ([''ab''], ''x''), transformations = [], buffer = ''ab''\<rparr>"
  have down: "Buffer_Write ''x'' (applyTransformations (buffer ?tw @ ''cd'') (transformations ?tw))
                = ((4, None), ''xabcd'')"
    by (simp add: Buffer_Write_def)
  have st: "w ?tw = ([''ab''], ''x'')"
    by simp
  have rng: "- (2 ^ 63) + 100 \<le> sint (4 :: go_int)"
    by simp
  from Write_contract [of Buffer_Write "''x''" ?tw "''cd''" 4 None "''xabcd''" "[''ab'']", OF down st]
  obtain tw' where
    W: "Write (logged Buffer_Write) ?tw ''cd'' = ((4 - word_of_nat (length (buffer tw')), None), tw')"
    and b: "buffer tw' = drop (length (buffer ?tw @ ''cd'') - min (length (buffer ?tw @ ''cd'')) 100) (buffer ?tw @ ''cd'')"
    and l: "w tw' = ([''ab''] @ [applyTransformations (buffer ?tw @ ''cd'') (transformations ?tw)], ''xabcd'')"
    and t: "transformations tw' = transformations ?tw"
    and s: "- (2 ^ 63) + 100 \<le> sint (4 :: go_int) \<longrightarrow>
              sint ((4 :: go_int) - word_of_nat (length (buffer tw'))) = sint (4 :: go_int) - int (length (buffer tw'))"
    by blast
  have b': "buffer tw' = ''abcd''"
    using b by simp
  have "sint ((4 :: go_int) - word_of_nat (length ''abcd'')) = sint (4 :: go_int) - int (length ''abcd'')"
    using s rng unfolding b' by blast
  moreover have "Write (logged Buffer_Write) ?tw ''cd''
       = ((0, None), \<lparr>w = ([''ab'', ''abcd''], ''xabcd''), transformations = [], buffer = ''abcd''\<rparr>)"
    using W b' l t by (cases tw') simp
  ultimately show ?thesis
    using down rng by simp
qed

text \<open>
  C2. Every \<open>Write\<close> hands the downstream writer the transformation of the retained
  buffer followed by the new chunk, so that over any sequence of chunks the downstream
  calls are the transformations of the working sequences. For two chunks the second
  working sequence is the last 100 bytes of the first one followed by the second chunk:
  the retained bytes go downstream again. With no rule and a fresh writer the downstream
  content after two chunks is the first chunk, its last 100 bytes once more, and the
  second chunk. \<open>Write\<close> is the only method of the type: nothing drains the buffer.
\<close>

theorem Write_forwards_buffer_again:
  fixes w_Write :: "'w Writer"
  shows "fst (w (snd (Write (logged w_Write) tw p)))
           = fst (w tw) @ [applyTransformations (buffer tw @ p) (transformations tw)]
       \<and> fst (w (Writes (logged w_Write) tw chunks))
           = fst (w tw) @ map (\<lambda>payload. applyTransformations payload (transformations tw))
                              (payloads (buffer tw) chunks)
       \<and> payloads (buffer tw) [p1, p2]
           = [buffer tw @ p1, drop (length (buffer tw @ p1) - 100) (buffer tw @ p1) @ p2]
       \<and> w (Writes Buffer_Write \<lparr>w = [], transformations = [], buffer = []\<rparr> [p1, p2])
           = p1 @ drop (length p1 - 100) p1 @ p2"
proof (intro conjI)
  show "fst (w (snd (Write (logged w_Write) tw p)))
           = fst (w tw) @ [applyTransformations (buffer tw @ p) (transformations tw)]"
    by (rule Write_logged_calls)
  show "fst (w (Writes (logged w_Write) tw chunks))
           = fst (w tw) @ map (\<lambda>payload. applyTransformations payload (transformations tw))
                              (payloads (buffer tw) chunks)"
    by (rule Writes_logged_calls)
  show "payloads (buffer tw) [p1, p2]
           = [buffer tw @ p1, drop (length (buffer tw @ p1) - 100) (buffer tw @ p1) @ p2]"
    by (simp only: payloads.simps)
  show "w (Writes Buffer_Write \<lparr>w = [], transformations = [], buffer = []\<rparr> [p1, p2])
           = p1 @ drop (length p1 - 100) p1 @ p2"
    by (simp add: Write_Buffer)
qed

text \<open>
  C10. Over a downstream writer that takes every byte and reports no error: the first
  \<open>Write\<close> of a non-empty chunk shorter than 100 bytes that the rules leave unchanged
  reports the count 0, not the length of the chunk; and with the rule \<open>white\<close> to \<open>w\<close>
  the first \<open>Write\<close> of \<open>white\<close> reports the count \<open>-4\<close>.
\<close>

theorem Write_count_is_not_chunk_length:
  "(p \<noteq> [] \<and> length p < 100 \<and> applyTransformations p ts = p \<longrightarrow>
      fst (Write Buffer_Write \<lparr>w = buf, transformations = ts, buffer = []\<rparr> p) = (0, None)
      \<and> 0 < length p)
   \<and> (\<exists>n. fst (Write Buffer_Write
                 \<lparr>w = [], transformations = [\<lparr>Pattern = MustCompile ''white'', Replacement = ''w''\<rparr>],
                   buffer = []\<rparr> ''white'') = (n, None)
          \<and> sint n = - 4)"
proof (intro conjI impI)
  assume "p \<noteq> [] \<and> length p < 100 \<and> applyTransformations p ts = p" 
  then show "fst (Write Buffer_Write \<lparr>w = buf, transformations = ts, buffer = []\<rparr> p) = (0, None)"
    by (simp add: Write_Buffer)
next
  assume "p \<noteq> [] \<and> length p < 100 \<and> applyTransformations p ts = p" 
  then show "0 < length p" by simp
next
  have t: "applyTransformations ''white'' [\<lparr>Pattern = MustCompile ''white'', Replacement = ''w''\<rparr>] = ''w''"
    by code_simp
  show "\<exists>n. fst (Write Buffer_Write
                 \<lparr>w = [], transformations = [\<lparr>Pattern = MustCompile ''white'', Replacement = ''w''\<rparr>],
                   buffer = []\<rparr> ''white'') = (n, None)
          \<and> sint n = - 4"
    unfolding Write_Buffer by (simp add: t del: applyTransformations.simps)
qed

theorem Write_count_is_not_chunk_length_witness:
  "''abc'' \<noteq> [] \<and> length ''abc'' < 100 \<and> applyTransformations ''abc'' [] = ''abc''
   \<and> fst (Write Buffer_Write \<lparr>w = ''x'', transformations = [], buffer = []\<rparr> ''abc'') = (0, None)"
  using Write_count_is_not_chunk_length [of "''abc''" "[]" "''x''"] by simp

section \<open>Sequences of chunks\<close>

text \<open>
  C1 at a failing input. With no rule, the chunks \<open>a\<close> and \<open>b\<close> written one by one put
  \<open>aab\<close> downstream, where \<open>applyTransformations\<close> of the whole input \<open>ab\<close> is
  \<open>ab\<close>: the second \<open>Write\<close> sends the retained \<open>a\<close> again. What is already written
  is no prefix of \<open>ab\<close>, so nothing written afterwards, by a flush or otherwise, makes
  the two equal.
\<close>

theorem split_invariance_fails:
  "w (Writes Buffer_Write \<lparr>w = [], transformations = [], buffer = []\<rparr> [''a'', ''b'']) = ''aab''
   \<and> applyTransformations (concat [''a'', ''b'']) [] = ''ab''
   \<and> \<not> prefix (w (Writes Buffer_Write \<lparr>w = [], transformations = [], buffer = []\<rparr> [''a'', ''b'']))
         (applyTransformations (concat [''a'', ''b'']) [])"
  by (simp add: Write_Buffer)

text \<open>
  C3 at the test's own input. The case "single-line transformation" passes. The case
  "multi-line transformation" fails at the second chunk: the test expects
  \<open>The green cat is on the white mat.\<close> and the buffer holds the transformed first chunk
  in front of it.
\<close>

theorem TestTransformWriter_Write_multi_line_fails:
  "TestTransformWriter_Write
     [''The black cat is on the red mat.'']
     [''The white cat is on the green mat.'']
   = PASS
   \<and> TestTransformWriter_Write
     [''The black cat is on the red mat.'', ''The red cat is on the black mat.'']
     [''The white cat is on the green mat.'', ''The green cat is on the white mat.'']
   = expected_but_got ''The green cat is on the white mat.''
       ''The white cat is on the green mat.The green cat is on the white mat.''"
  by code_simp

text \<open>
  C4 at a failing input. With no rule, the chunks \<open>ab\<close> and \<open>c\<close> put \<open>ababc\<close>
  downstream; the input is \<open>abc\<close>.
\<close>

theorem identity_any_chunking_fails:
  "w (Writes Buffer_Write \<lparr>w = [], transformations = [], buffer = []\<rparr> [''ab'', ''c'']) = ''ababc''
   \<and> concat [''ab'', ''c''] = ''abc''
   \<and> w (Writes Buffer_Write \<lparr>w = [], transformations = [], buffer = []\<rparr> [''ab'', ''c''])
       \<noteq> concat [''ab'', ''c'']"
  by (simp add: Write_Buffer)

section \<open>Properties of \<open>CopyToPipe\<close>\<close>

lemma CopyToPipe_events:
  "snd (CopyToPipe c iop) =
     (case Stdout iop of
        Some r \<Rightarrow> [wg_Add 1,
                   go (copy_go \<lparr>w = stdout c, transformations = stdoutTransforms, buffer = []\<rparr> r)]
      | None \<Rightarrow> []) @
     (case Stderr iop of
        Some r \<Rightarrow> [wg_Add 1,
                   go (copy_go \<lparr>w = stderr c, transformations = stderrTransforms, buffer = []\<rparr> r)]
      | None \<Rightarrow> []) @
     (case stdin c of
        Some stdin' \<Rightarrow> (case Stdin iop of Some i \<Rightarrow> [go (stdin_go i stdin')] | None \<Rightarrow> [])
      | None \<Rightarrow> [])"
  by (simp add: CopyToPipe_def copyFunc_def Let_def split: option.splits)

lemma CopyToPipe_wg:
  "wg (fst (CopyToPipe c iop)) =
     wg c + (if Stdout iop = None then 0 else 1) + (if Stderr iop = None then 0 else 1)"
  by (simp add: CopyToPipe_def copyFunc_def Let_def split: option.splits)

text \<open>
  C7, as amended. \<open>CopyToPipe\<close> starts one copy goroutine for stdout and one for stderr,
  each when the I/O source has that stream, and calls \<open>wg.Add(1)\<close> immediately before
  each; the counter grows by the number of these goroutines. Such a goroutine calls
  \<open>wg.Done()\<close> once, as its last call, whether \<open>pools.Copy\<close> answered an error or not.
  The stdin goroutine is started with no \<open>Add\<close> and never calls \<open>Done\<close>: the counter
  accounts for stdout and stderr only.
\<close>

theorem CopyToPipe_counts_stdout_and_stderr:
  "snd (CopyToPipe c iop) =
     (case Stdout iop of
        Some r \<Rightarrow> [wg_Add 1,
                   go (copy_go \<lparr>w = stdout c, transformations = stdoutTransforms, buffer = []\<rparr> r)]
      | None \<Rightarrow> []) @
     (case Stderr iop of
        Some r \<Rightarrow> [wg_Add 1,
                   go (copy_go \<lparr>w = stderr c, transformations = stderrTransforms, buffer = []\<rparr> r)]
      | None \<Rightarrow> []) @
     (case stdin c of
        Some stdin' \<Rightarrow> (case Stdin iop of Some i \<Rightarrow> [go (stdin_go i stdin')] | None \<Rightarrow> [])
      | None \<Rightarrow> [])
   \<and> wg (fst (CopyToPipe c iop)) = wg c + int (length (writers (snd (CopyToPipe c iop))))
   \<and> last (body (copy_go tw r) err) = wg_Done
   \<and> count_list (body (copy_go tw r) err) wg_Done = 1
   \<and> wg_Done \<notin> set (body (stdin_go i s) err)"
proof (intro conjI)
  show "wg (fst (CopyToPipe c iop)) = wg c + int (length (writers (snd (CopyToPipe c iop))))"
    unfolding CopyToPipe_events CopyToPipe_wg by (simp split: option.splits)
qed (simp_all add: CopyToPipe_events split: option.splits)

text \<open>
  C7 as stated fails for stdin: with a stdin reader in the configuration and an I/O
  source that has only a stdin, one goroutine is started, the counter stays 0, and the
  goroutine makes no call to \<open>Done\<close>, whether closing fails or not.
\<close>

theorem stdin_task_not_counted:
  "snd (CopyToPipe \<lparr>wg = 0, stdout = 1, stderr = 2, stdin = Some 0, stdinPipe = Some 3, dio = None\<rparr>
          \<lparr>Stdin = Some 4, Stdout = None, Stderr = None\<rparr>) = [go (stdin_go (4::nat) 0)]
   \<and> wg (fst (CopyToPipe \<lparr>wg = 0, stdout = 1, stderr = 2, stdin = Some 0, stdinPipe = Some 3, dio = None\<rparr>
          \<lparr>Stdin = Some 4, Stdout = None, Stderr = None\<rparr>)) = 0
   \<and> body (stdin_go (4::nat) 0) None = [pools_Copy 4 0, Close 4]
   \<and> body (stdin_go (4::nat) 0) (Some (errorString ''closed'')) = [pools_Copy 4 0, Close 4, log_Warnf (errorString ''closed'')]"
  by (simp add: CopyToPipe_def copyFunc_def)

text \<open>
  C8, as amended. \<open>CopyToPipe\<close> takes the configuration and the I/O source and no rule
  set. The writer it builds for stdout always has the one rule \<open>{black}\<close> to \<open>{white}\<close>,
  the writer for stderr always the one rule \<open>{red}\<close> to \<open>{grn}\<close>, each with an empty
  buffer, whatever the caller.
\<close>

theorem CopyToPipe_fixed_rules:
  "writers (snd (CopyToPipe c iop)) =
     (case Stdout iop of
        Some r \<Rightarrow> [(\<lparr>w = stdout c, transformations = stdoutTransforms, buffer = []\<rparr>, r)]
      | None \<Rightarrow> []) @
     (case Stderr iop of
        Some r \<Rightarrow> [(\<lparr>w = stderr c, transformations = stderrTransforms, buffer = []\<rparr>, r)]
      | None \<Rightarrow> [])
   \<and> applyTransformations s stdoutTransforms = replaceAllLiteral ''{black}'' s ''{white}''
   \<and> applyTransformations s stderrTransforms = replaceAllLiteral ''{red}'' s ''{grn}''"
  by (simp add: CopyToPipe_events stdoutTransforms_def stderrTransforms_def MustCompile_def
      split: option.splits)

text \<open>
  C8 as stated fails: a caller that wants the empty rule set on stdout, under which
  \<open>{black}\<close> stays \<open>{black}\<close>, still gets a stdout writer whose rules make \<open>{white}\<close>
  of it.
\<close>

theorem caller_rules_counterexample:
  "map (\<lambda>(tw, r). applyTransformations ''{black}'' (transformations tw))
     (writers (snd (CopyToPipe
        \<lparr>wg = 0, stdout = 1, stderr = 2, stdin = None, stdinPipe = None, dio = None\<rparr>
        \<lparr>Stdin = None, Stdout = Some (5::nat), Stderr = None\<rparr>))) = [''{white}'']
   \<and> applyTransformations ''{black}'' [] = ''{black}''"
proof -
  have "applyTransformations ''{black}'' stdoutTransforms = ''{white}''"
    by code_simp
  then show ?thesis
    by (simp add: CopyToPipe_events del: applyTransformations.simps) simp
qed

section \<open>Properties of \<open>CloseStreams\<close>\<close>

lemma CloseStreams_result:
  fixes stdin_Close Clean :: "('h, 's) closing"
  assumes "(case stdin c of None \<Rightarrow> (None, s0) | Some r \<Rightarrow> stdin_Close r s0) = (e1, s1)"
      and "Clean (stdout c) s1 = (e2, s2)"
      and "Clean (stderr c) s2 = (e3, s3)"
  shows "CloseStreams stdin_Close Clean c s0 =
           (if e1 = None \<and> e2 = None \<and> e3 = None then None
            else Some (fmt_Errorf (Join (failure_messages
                    [(''stdin'', e1), (''stdout'', e2), (''stderr'', e3)]) [CHR 0x0A])),
            s3)"
  using assms
  by (cases e1; cases e2; cases e3)
     (auto simp: CloseStreams_def failure_messages_def Let_def split: option.splits prod.splits)

lemma doPrintf_no_percent: "CHR ''%'' \<notin> set format \<Longrightarrow> doPrintf format = Some format"
  by (induction format) auto

lemma fmt_Errorf_no_percent: "CHR ''%'' \<notin> set format \<Longrightarrow> fmt_Errorf format = errorString format"
  by (simp add: fmt_Errorf_def doPrintf_no_percent)


end
